theory Spec2Isabelle
  imports Main
begin

section \<open>SQL values and three-valued logic\<close>

text \<open>
  The schema and the row-level-security policies of the portal are SQL. A nullable column
  is an \<open>option\<close> (\<open>None\<close> is NULL), a \<open>NOT NULL\<close> column is a plain value. A comparison
  with NULL is neither true nor false, so SQL conditions evaluate to a \<open>bool option\<close>;
  a \<open>WHERE\<close>, \<open>JOIN ... ON\<close>, \<open>USING\<close> or \<open>WITH CHECK\<close> condition lets a row pass
  only when it evaluates to true.
\<close>

type_synonym uuid = nat
type_synonym timestamp = nat

text \<open>
  A value of a \<open>DATE\<close> column: a calendar day, as year, month and day. The store turns
  the text a client sends into such a value before the statement runs, so that two
  spellings of one day are one value; the statements below carry the value.
\<close>

datatype date = Date nat nat nat

definition sql_eq :: "'a option \<Rightarrow> 'a option \<Rightarrow> bool option" where
  "sql_eq a b = (case a of None \<Rightarrow> None
                 | Some x \<Rightarrow> (case b of None \<Rightarrow> None | Some y \<Rightarrow> Some (x = y)))"

definition sql_and :: "bool option \<Rightarrow> bool option \<Rightarrow> bool option" where
  "sql_and a b =
     (if a = Some False \<or> b = Some False then Some False
      else if a = Some True \<and> b = Some True then Some True
      else None)"

definition sql_in :: "'a option \<Rightarrow> 'a option list \<Rightarrow> bool option" where
  "sql_in x ys =
     (if ys = [] then Some False
      else case x of None \<Rightarrow> None
           | Some v \<Rightarrow> (if Some v \<in> set ys then Some True
                        else if None \<in> set ys then None
                        else Some False))"

definition is_true :: "bool option \<Rightarrow> bool" where
  "is_true b = (b = Some True)"

section \<open>Schema\<close>

datatype user_role = Student | Teacher

datatype attendance_status = Present | Absent

record classes_row =
  classes_id :: uuid
  classes_name :: string
  classes_created_at :: timestamp

record profiles_row =
  profiles_id :: uuid
  profiles_name :: string
  profiles_role :: user_role
  profiles_class_id :: "uuid option"
  profiles_created_at :: timestamp
  profiles_updated_at :: timestamp

record posts_row =
  posts_id :: uuid
  posts_teacher_id :: uuid
  posts_class_id :: uuid
  posts_title :: string
  posts_content :: string
  posts_created_at :: timestamp

record attendance_row =
  attendance_id :: uuid
  attendance_student_id :: uuid
  attendance_date :: date
  attendance_status :: attendance_status
  attendance_created_at :: timestamp

text \<open>
  Modelled from the spec: the table \<open>auth.users\<close> of the external authentication
  service, which the migration references and does not declare. An identity has an
  \<open>id\<close>, a contact address \<open>email\<close>, which the trigger treats as a value that may be
  missing, and the metadata \<open>raw_user_meta_data\<close>. The metadata is a JSON object; the
  trigger reads it with \<open>->>\<close> only, which gives the text of a member and NULL for a
  missing member or a JSON null, so the object is kept as a list of its members that
  have a text.
\<close>

record auth_users_row =
  users_id :: uuid
  users_email :: "string option"
  users_raw_user_meta_data :: "(string \<times> string) list"

record database =
  auth_users :: "auth_users_row list"
  classes :: "classes_row list"
  profiles :: "profiles_row list"
  posts :: "posts_row list"
  attendance :: "attendance_row list"

datatype sql_error =
    Rls_violation
  | Unique_violation
  | Foreign_key_violation
  | Not_null_violation
  | Invalid_enum_value

subsection \<open>Constraints of the schema as predicates on a database\<close>

definition pk_classes :: "database \<Rightarrow> bool" where
  "pk_classes db = distinct (map classes_id (classes db))"

definition pk_profiles :: "database \<Rightarrow> bool" where
  "pk_profiles db = distinct (map profiles_id (profiles db))"

definition attendance_key :: "attendance_row \<Rightarrow> uuid \<times> date" where
  "attendance_key a = (attendance_student_id a, attendance_date a)"

definition unique_attendance :: "database \<Rightarrow> bool" where
  "unique_attendance db = distinct (map attendance_key (attendance db))"

definition profile_of :: "database \<Rightarrow> uuid \<Rightarrow> profiles_row option" where
  "profile_of db u = find (\<lambda>p. profiles_id p = u) (profiles db)"

section \<open>Row-level-security policies\<close>

text \<open>
  Every policy takes the database and the value of \<open>auth.uid()\<close>, which is NULL for a
  caller who is not signed in. All policies of the migration are permissive: the rows a
  statement may touch are those for which one policy of the table and command is true.
\<close>

definition profiles_select_policy :: "uuid option \<Rightarrow> profiles_row \<Rightarrow> bool" where
  "profiles_select_policy uid p = is_true (sql_eq uid (Some (profiles_id p)))"

definition profiles_update_policy :: "uuid option \<Rightarrow> profiles_row \<Rightarrow> bool" where
  "profiles_update_policy uid p = is_true (sql_eq uid (Some (profiles_id p)))"

text \<open>
  The rows of \<open>profiles\<close> a caller reads. A subquery inside a policy runs as the caller
  of the statement, and row-level security is enabled on \<open>profiles\<close>: whatever a policy
  of another table selects from \<open>profiles\<close>, it selects from these rows.
\<close>

definition select_profiles :: "database \<Rightarrow> uuid option \<Rightarrow> profiles_row list" where
  "select_profiles db uid = filter (profiles_select_policy uid) (profiles db)"

text \<open>
  \<open>SELECT class_id FROM public.profiles WHERE id = auth.uid()\<close>. The condition keeps
  the caller's own row only, which is the row the caller reads, so the subquery gives
  the same list over \<open>profiles\<close> as over the rows the caller reads
  (\<open>caller_class_ids_rls\<close> below); the same holds for the subquery of the \<open>INSERT\<close>
  check of posts (\<open>caller_teacher_class_ids_rls\<close>).
\<close>

definition caller_class_ids :: "database \<Rightarrow> uuid option \<Rightarrow> uuid option list" where
  "caller_class_ids db uid =
     [profiles_class_id p. p \<leftarrow> profiles db, is_true (sql_eq (Some (profiles_id p)) uid)]"

definition classes_select_policy :: "database \<Rightarrow> uuid option \<Rightarrow> classes_row \<Rightarrow> bool" where
  "classes_select_policy db uid c =
     is_true (sql_in (Some (classes_id c)) (caller_class_ids db uid))"

definition posts_select_policy :: "database \<Rightarrow> uuid option \<Rightarrow> posts_row \<Rightarrow> bool" where
  "posts_select_policy db uid r =
     is_true (sql_in (Some (posts_class_id r)) (caller_class_ids db uid))"

text \<open>
  \<open>SELECT class_id FROM public.profiles WHERE id = auth.uid() AND role = 'teacher'\<close>
\<close>

definition caller_teacher_class_ids :: "database \<Rightarrow> uuid option \<Rightarrow> uuid option list" where
  "caller_teacher_class_ids db uid =
     [profiles_class_id p. p \<leftarrow> profiles db,
        is_true (sql_and (sql_eq (Some (profiles_id p)) uid)
                         (Some (profiles_role p = Teacher)))]"

definition posts_insert_check :: "database \<Rightarrow> uuid option \<Rightarrow> posts_row \<Rightarrow> bool" where
  "posts_insert_check db uid r =
     is_true (sql_and (sql_eq (Some (posts_teacher_id r)) uid)
                      (sql_in (Some (posts_class_id r)) (caller_teacher_class_ids db uid)))"

definition posts_update_policy :: "uuid option \<Rightarrow> posts_row \<Rightarrow> bool" where
  "posts_update_policy uid r = is_true (sql_eq (Some (posts_teacher_id r)) uid)"

definition posts_delete_policy :: "uuid option \<Rightarrow> posts_row \<Rightarrow> bool" where
  "posts_delete_policy uid r = is_true (sql_eq (Some (posts_teacher_id r)) uid)"

definition attendance_student_select_policy :: "uuid option \<Rightarrow> attendance_row \<Rightarrow> bool" where
  "attendance_student_select_policy uid a =
     is_true (sql_eq (Some (attendance_student_id a)) uid)"

text \<open>
  The three teacher policies on attendance use the same subquery:
  \<^verbatim>\<open>
  SELECT p1.id FROM public.profiles p1
  JOIN public.profiles p2 ON p1.class_id = p2.class_id
  WHERE p2.id = auth.uid() AND p2.role = 'teacher'
  \<close>
  Both sides of the join are the rows of \<open>profiles\<close> the caller reads.
\<close>

definition teacher_class_students :: "database \<Rightarrow> uuid option \<Rightarrow> uuid option list" where
  "teacher_class_students db uid =
     [Some (profiles_id p1). p1 \<leftarrow> select_profiles db uid, p2 \<leftarrow> select_profiles db uid,
        is_true (sql_eq (profiles_class_id p1) (profiles_class_id p2)),
        is_true (sql_and (sql_eq (Some (profiles_id p2)) uid)
                         (Some (profiles_role p2 = Teacher)))]"

definition attendance_teacher_select_policy ::
  "database \<Rightarrow> uuid option \<Rightarrow> attendance_row \<Rightarrow> bool" where
  "attendance_teacher_select_policy db uid a =
     is_true (sql_in (Some (attendance_student_id a)) (teacher_class_students db uid))"

definition attendance_insert_check ::
  "database \<Rightarrow> uuid option \<Rightarrow> attendance_row \<Rightarrow> bool" where
  "attendance_insert_check db uid a =
     is_true (sql_in (Some (attendance_student_id a)) (teacher_class_students db uid))"

definition attendance_update_policy ::
  "database \<Rightarrow> uuid option \<Rightarrow> attendance_row \<Rightarrow> bool" where
  "attendance_update_policy db uid a =
     is_true (sql_in (Some (attendance_student_id a)) (teacher_class_students db uid))"

definition attendance_select_policy ::
  "database \<Rightarrow> uuid option \<Rightarrow> attendance_row \<Rightarrow> bool" where
  "attendance_select_policy db uid a =
     (attendance_student_select_policy uid a \<or> attendance_teacher_select_policy db uid a)"

subsection \<open>Reads under the policies\<close>

definition select_classes :: "database \<Rightarrow> uuid option \<Rightarrow> classes_row list" where
  "select_classes db uid = filter (classes_select_policy db uid) (classes db)"

definition select_posts :: "database \<Rightarrow> uuid option \<Rightarrow> posts_row list" where
  "select_posts db uid = filter (posts_select_policy db uid) (posts db)"

definition select_attendance :: "database \<Rightarrow> uuid option \<Rightarrow> attendance_row list" where
  "select_attendance db uid = filter (attendance_select_policy db uid) (attendance db)"

section \<open>Identity bootstrap and removal\<close>

definition coalesce :: "'a option \<Rightarrow> 'a option \<Rightarrow> 'a option" where
  "coalesce a b = (case a of Some x \<Rightarrow> Some x | None \<Rightarrow> b)"

text \<open>\<open>obj ->> key\<close>: the text of a member, NULL when the member is missing.\<close>

definition json_text :: "(string \<times> string) list \<Rightarrow> string \<Rightarrow> string option" where
  "json_text obj k = map_of obj k"

text \<open>
  \<open>(...)::user_role\<close>: NULL stays NULL, a label of the enum is converted, any other
  text raises an error.
\<close>

definition cast_user_role :: "string option \<Rightarrow> sql_error + user_role option" where
  "cast_user_role t =
     (case t of None \<Rightarrow> Inr None
      | Some l \<Rightarrow> (if l = ''student'' then Inr (Some Student)
                   else if l = ''teacher'' then Inr (Some Teacher)
                   else Inl Invalid_enum_value))"

text \<open>
  The trigger function. It runs as its owner, so no policy applies to its insert; the
  column list leaves \<open>class_id\<close> NULL and the two timestamps at \<open>now()\<close>. The values
  are computed first (the cast may raise), then the row is checked against \<open>NOT NULL\<close>
  and the primary key.
\<close>

definition handle_new_user ::
  "database \<Rightarrow> timestamp \<Rightarrow> auth_users_row \<Rightarrow> sql_error + database" where
  "handle_new_user db now new =
     (case cast_user_role (json_text (users_raw_user_meta_data new) ''role'') of
        Inl e \<Rightarrow> Inl e
      | Inr r \<Rightarrow>
          (case coalesce (json_text (users_raw_user_meta_data new) ''name'') (users_email new) of
             None \<Rightarrow> Inl Not_null_violation
           | Some n \<Rightarrow>
               if users_id new \<in> set (map profiles_id (profiles db)) then Inl Unique_violation
               else Inr (db\<lparr>profiles := profiles db @
                      [\<lparr>profiles_id = users_id new,
                        profiles_name = n,
                        profiles_role = (case coalesce r (Some Student) of
                                           Some x \<Rightarrow> x | None \<Rightarrow> Student),
                        profiles_class_id = None,
                        profiles_created_at = now,
                        profiles_updated_at = now\<rparr>]\<rparr>)))"

text \<open>
  \<open>on_auth_user_created\<close>: the trigger runs after the insert of each row into
  \<open>auth.users\<close>, inside the inserting statement; an error of the trigger rejects the
  insert.
\<close>

definition insert_auth_user ::
  "database \<Rightarrow> timestamp \<Rightarrow> auth_users_row \<Rightarrow> sql_error + database" where
  "insert_auth_user db now new =
     (if users_id new \<in> set (map users_id (auth_users db)) then Inl Unique_violation
      else handle_new_user (db\<lparr>auth_users := auth_users db @ [new]\<rparr>) now new)"

text \<open>
  \<open>DELETE FROM auth.users WHERE id = u\<close>. The foreign key of \<open>profiles.id\<close> is
  \<open>ON DELETE CASCADE\<close>; the foreign keys \<open>posts.teacher_id\<close> and
  \<open>attendance.student_id\<close> name no action, so a profile that a post or an attendance
  row still references cannot be removed and the statement fails as a whole.
\<close>

definition profile_referenced :: "database \<Rightarrow> uuid \<Rightarrow> bool" where
  "profile_referenced db u =
     (u \<in> set (map posts_teacher_id (posts db)) \<or>
      u \<in> set (map attendance_student_id (attendance db)))"

definition delete_auth_user :: "database \<Rightarrow> uuid \<Rightarrow> sql_error + database" where
  "delete_auth_user db u =
     (if u \<notin> set (map users_id (auth_users db)) then Inr db
      else if u \<in> set (map profiles_id (profiles db)) \<and> profile_referenced db u
           then Inl Foreign_key_violation
      else Inr (db\<lparr>auth_users := filter (\<lambda>r. users_id r \<noteq> u) (auth_users db),
                   profiles := filter (\<lambda>p. profiles_id p \<noteq> u) (profiles db)\<rparr>))"

section \<open>Writes on posts\<close>

text \<open>
  A write is checked against the policies of its command, then against the constraints
  of the table. The store applies the policies of a table to a statement as follows
  (PostgreSQL, \<open>CREATE POLICY\<close>, policies applied by command type):
  \<^item> \<open>INSERT\<close>: the new row must pass the \<open>WITH CHECK\<close> of the \<open>INSERT\<close> policy;
  \<^item> \<open>UPDATE\<close>: the existing row must pass the \<open>USING\<close> of the \<open>UPDATE\<close> policy and the
    new row its \<open>WITH CHECK\<close>, which is the \<open>USING\<close> condition when the policy names
    none; when the statement reads the table (a \<open>WHERE\<close> clause on its columns), the
    existing and the new row must pass the \<open>SELECT\<close> policy as well;
  \<^item> \<open>DELETE\<close>: the existing row must pass the \<open>USING\<close> of the \<open>DELETE\<close> policy, and
    the \<open>SELECT\<close> policy when the statement reads the table.
  An existing row that fails a \<open>USING\<close> condition is left out of the statement; a new
  row that fails a check rejects the statement.

  The client sends rows and patches of constants, so an \<open>UPDATE\<close> is
  \<open>UPDATE posts SET c = v, ... [WHERE w]\<close> with a value for some of the columns and an
  optional filter; an \<open>INSERT\<close> as \<open>handleCreatePost\<close> sends it returns no columns.
\<close>

text \<open>
  The constraints of \<open>posts\<close>: the primary key over the rows of the table after the
  write, the two foreign keys for the rows written.
\<close>

definition posts_constraints ::
  "database \<Rightarrow> posts_row list \<Rightarrow> posts_row list \<Rightarrow> sql_error option" where
  "posts_constraints db rows written =
     (if \<not> distinct (map posts_id rows) then Some Unique_violation
      else if \<not> list_all (\<lambda>r. posts_teacher_id r \<in> set (map profiles_id (profiles db)) \<and>
                               posts_class_id r \<in> set (map classes_id (classes db))) written
           then Some Foreign_key_violation
      else None)"

definition insert_posts :: "database \<Rightarrow> uuid option \<Rightarrow> posts_row \<Rightarrow> sql_error + database" where
  "insert_posts db uid r =
     (if \<not> posts_insert_check db uid r then Inl Rls_violation
      else case posts_constraints db (posts db @ [r]) [r] of
             Some e \<Rightarrow> Inl e
           | None \<Rightarrow> Inr (db\<lparr>posts := posts db @ [r]\<rparr>))"

record posts_patch =
  patch_id :: "uuid option"
  patch_teacher_id :: "uuid option"
  patch_class_id :: "uuid option"
  patch_title :: "string option"
  patch_content :: "string option"
  patch_created_at :: "timestamp option"

definition set_column :: "'a option \<Rightarrow> 'a \<Rightarrow> 'a" where
  "set_column v old = (case v of None \<Rightarrow> old | Some x \<Rightarrow> x)"

definition set_posts :: "posts_patch \<Rightarrow> posts_row \<Rightarrow> posts_row" where
  "set_posts p r =
     \<lparr>posts_id = set_column (patch_id p) (posts_id r),
      posts_teacher_id = set_column (patch_teacher_id p) (posts_teacher_id r),
      posts_class_id = set_column (patch_class_id p) (posts_class_id r),
      posts_title = set_column (patch_title p) (posts_title r),
      posts_content = set_column (patch_content p) (posts_content r),
      posts_created_at = set_column (patch_created_at p) (posts_created_at r)\<rparr>"

text \<open>
  The \<open>SELECT\<close> policy as far as a statement with the optional filter \<open>wh\<close> is held to
  it: not at all without a filter.
\<close>

definition posts_read_policy ::
  "database \<Rightarrow> uuid option \<Rightarrow> (posts_row \<Rightarrow> bool) option \<Rightarrow> posts_row \<Rightarrow> bool" where
  "posts_read_policy db uid wh r =
     (case wh of None \<Rightarrow> True | Some w \<Rightarrow> posts_select_policy db uid r)"

definition posts_where :: "(posts_row \<Rightarrow> bool) option \<Rightarrow> posts_row \<Rightarrow> bool" where
  "posts_where wh r = (case wh of None \<Rightarrow> True | Some w \<Rightarrow> w r)"

definition update_posts ::
  "database \<Rightarrow> uuid option \<Rightarrow> (posts_row \<Rightarrow> bool) option \<Rightarrow> posts_patch
     \<Rightarrow> sql_error + database" where
  "update_posts db uid wh p =
     (let target = (\<lambda>r. posts_where wh r \<and> posts_read_policy db uid wh r \<and>
                         posts_update_policy uid r);
          rows = map (\<lambda>r. if target r then set_posts p r else r) (posts db)
      in if \<not> list_all (\<lambda>r. posts_update_policy uid (set_posts p r) \<and>
                              posts_read_policy db uid wh (set_posts p r))
                (filter target (posts db))
         then Inl Rls_violation
         else case posts_constraints db rows (map (set_posts p) (filter target (posts db))) of
                Some e \<Rightarrow> Inl e
              | None \<Rightarrow> Inr (db\<lparr>posts := rows\<rparr>))"

definition delete_posts ::
  "database \<Rightarrow> uuid option \<Rightarrow> (posts_row \<Rightarrow> bool) option \<Rightarrow> sql_error + database" where
  "delete_posts db uid wh =
     Inr (db\<lparr>posts := filter (\<lambda>r. \<not> (posts_where wh r \<and> posts_read_policy db uid wh r \<and>
                                       posts_delete_policy uid r)) (posts db)\<rparr>)"

text \<open>The author of every post is a profile of the class the post targets.\<close>

definition posts_author_in_class :: "database \<Rightarrow> bool" where
  "posts_author_in_class db =
     list_all (\<lambda>r. case profile_of db (posts_teacher_id r) of
                     None \<Rightarrow> False
                   | Some p \<Rightarrow> profiles_class_id p = Some (posts_class_id r)) (posts db)"

section \<open>Marking attendance\<close>

text \<open>
  \<open>handleMarkAttendance\<close> sends one row \<open>{student_id, date, status}\<close> as an upsert with
  \<open>onConflict: 'student_id,date'\<close>, that is
  \<open>INSERT ... ON CONFLICT (student_id, date) DO UPDATE SET\<close> the three columns sent.
  The columns \<open>id\<close> and \<open>created_at\<close> take their defaults \<open>gen_random_uuid()\<close> and
  \<open>now()\<close>, which the environment supplies here. The proposed row must pass the
  \<open>INSERT\<close> check; on a conflict the existing row and the updated row must pass the
  \<open>SELECT\<close> and the \<open>UPDATE\<close> policies.
\<close>

definition attendance_proposed ::
  "uuid \<Rightarrow> timestamp \<Rightarrow> uuid \<Rightarrow> date \<Rightarrow> attendance_status \<Rightarrow> attendance_row" where
  "attendance_proposed new_id now sid d s =
     \<lparr>attendance_id = new_id, attendance_student_id = sid, attendance_date = d,
      attendance_status = s, attendance_created_at = now\<rparr>"

definition upsert_attendance ::
  "database \<Rightarrow> uuid option \<Rightarrow> uuid \<Rightarrow> timestamp \<Rightarrow> uuid \<Rightarrow> date \<Rightarrow> attendance_status
     \<Rightarrow> sql_error + database" where
  "upsert_attendance db uid new_id now sid d s =
     (let new = attendance_proposed new_id now sid d s
      in if \<not> attendance_insert_check db uid new then Inl Rls_violation
         else if sid \<notin> set (map profiles_id (profiles db)) then Inl Foreign_key_violation
         else case find (\<lambda>a. attendance_key a = (sid, d)) (attendance db) of
                None \<Rightarrow>
                  if new_id \<in> set (map attendance_id (attendance db)) then Inl Unique_violation
                  else Inr (db\<lparr>attendance := attendance db @ [new]\<rparr>)
              | Some old \<Rightarrow>
                  (let upd = (\<lambda>a. a\<lparr>attendance_student_id := sid, attendance_date := d,
                                     attendance_status := s\<rparr>)
                   in if \<not> (attendance_select_policy db uid old \<and>
                             attendance_update_policy db uid old \<and>
                             attendance_select_policy db uid (upd old) \<and>
                             attendance_update_policy db uid (upd old))
                      then Inl Rls_violation
                      else Inr (db\<lparr>attendance :=
                             map (\<lambda>a. if attendance_key a = (sid, d) then upd a else a)
                                 (attendance db)\<rparr>)))"

text \<open>
  A sequence of marks for one student and date. Each mark is a call of its own: a
  rejected mark leaves the table as it is and the next mark is applied to that table.
\<close>

record mark_call =
  mark_caller :: "uuid option"
  mark_new_id :: uuid
  mark_now :: timestamp
  mark_status :: attendance_status

fun mark_sequence :: "database \<Rightarrow> uuid \<Rightarrow> date \<Rightarrow> mark_call list \<Rightarrow> database" where
  "mark_sequence db sid d [] = db"
| "mark_sequence db sid d (m # ms) =
     mark_sequence
       (case upsert_attendance db (mark_caller m) (mark_new_id m) (mark_now m) sid d
               (mark_status m) of
          Inl e \<Rightarrow> db
        | Inr db' \<Rightarrow> db') sid d ms"

section \<open>Dashboard components\<close>

text \<open>
  Every data call of the client resolves to a pair \<open>{data, error}\<close>. A handler is
  modelled from the point where its call has resolved: it takes the response and the
  state of the component, and returns the new state with the actions it starts (toasts
  shown, further fetches, sign-out), in order.
\<close>

datatype 'a response = Response (data: "'a option") (error: "string option")

datatype toast_variant = Default_variant | Destructive

record toast =
  toast_title :: string
  toast_description :: string
  toast_variant :: toast_variant

datatype action = Show_toast toast | Run_fetchPosts | Run_fetchAttendance | Run_signOut

text \<open>\<open>data || []\<close>\<close>

definition or_empty :: "'a list option \<Rightarrow> 'a list" where
  "or_empty d = (case d of None \<Rightarrow> [] | Some xs \<Rightarrow> xs)"

definition error_toast :: "string \<Rightarrow> action" where
  "error_toast msg =
     Show_toast \<lparr>toast_title = ''Error'', toast_description = msg,
                 toast_variant = Destructive\<rparr>"

definition success_toast :: "string \<Rightarrow> action" where
  "success_toast msg =
     Show_toast \<lparr>toast_title = ''Success'', toast_description = msg,
                 toast_variant = Default_variant\<rparr>"

subsection \<open>TeacherDashboard\<close>

record teacher_post =
  tpost_id :: uuid
  tpost_title :: string
  tpost_content :: string
  tpost_created_at :: timestamp

record student =
  student_id :: uuid
  student_name :: string

record attendance_record =
  record_student_id :: uuid
  record_date :: string
  record_status :: attendance_status

datatype tab = Posts_tab | Attendance_tab

record teacher_state =
  teacher_posts :: "teacher_post list"
  teacher_students :: "student list"
  teacher_attendance :: "attendance_record list"
  teacher_loading :: bool
  teacher_activeTab :: tab
  teacher_newPost :: "string \<times> string"
  teacher_selectedDate :: string

definition teacher_initial :: "string \<Rightarrow> teacher_state" where
  "teacher_initial today =
     \<lparr>teacher_posts = [], teacher_students = [], teacher_attendance = [],
      teacher_loading = True, teacher_activeTab = Posts_tab,
      teacher_newPost = ([], []), teacher_selectedDate = today\<rparr>"

definition teacher_fetchPosts ::
  "teacher_post list response \<Rightarrow> teacher_state \<Rightarrow> teacher_state \<times> action list" where
  "teacher_fetchPosts r st =
     (case error r of
        Some e \<Rightarrow> (st, [error_toast ''Failed to fetch posts''])
      | None \<Rightarrow> (st\<lparr>teacher_posts := or_empty (data r)\<rparr>, []))"

definition teacher_fetchStudents ::
  "profiles_row \<Rightarrow> student list response \<Rightarrow> teacher_state \<Rightarrow> teacher_state \<times> action list"
  where
  "teacher_fetchStudents profile r st =
     (if profiles_class_id profile = None then (st, [])
      else case error r of
             Some e \<Rightarrow> (st, [error_toast ''Failed to fetch students''])
           | None \<Rightarrow> (st\<lparr>teacher_students := or_empty (data r)\<rparr>, []))"

definition teacher_fetchAttendance ::
  "attendance_record list response \<Rightarrow> teacher_state \<Rightarrow> teacher_state \<times> action list" where
  "teacher_fetchAttendance r st =
     (case error r of
        Some e \<Rightarrow> (st\<lparr>teacher_loading := False\<rparr>, [error_toast ''Failed to fetch attendance''])
      | None \<Rightarrow> (st\<lparr>teacher_attendance := or_empty (data r), teacher_loading := False\<rparr>, []))"

definition handleCreatePost ::
  "profiles_row \<Rightarrow> unit response \<Rightarrow> teacher_state \<Rightarrow> teacher_state \<times> action list" where
  "handleCreatePost profile r st =
     (if profiles_class_id profile = None
      then (st, [error_toast ''You must be assigned to a class to create posts''])
      else case error r of
             Some e \<Rightarrow> (st, [error_toast ''Failed to create post''])
           | None \<Rightarrow> (st\<lparr>teacher_newPost := ([], [])\<rparr>,
                      [success_toast ''Post created successfully'', Run_fetchPosts]))"

definition handleMarkAttendance ::
  "unit response \<Rightarrow> teacher_state \<Rightarrow> teacher_state \<times> action list" where
  "handleMarkAttendance r st =
     (case error r of
        Some e \<Rightarrow> (st, [error_toast ''Failed to mark attendance''])
      | None \<Rightarrow> (st, [success_toast ''Attendance marked successfully'', Run_fetchAttendance]))"

text \<open>
  The roster query of \<open>fetchStudents\<close>, as the store answers it for the caller:
  \<open>SELECT id, name FROM profiles WHERE class_id = c AND role = 'student'\<close> over the
  rows the \<open>SELECT\<close> policy of \<open>profiles\<close> admits.
\<close>

definition fetchStudents_query :: "database \<Rightarrow> uuid option \<Rightarrow> uuid \<Rightarrow> student list" where
  "fetchStudents_query db uid c =
     [\<lparr>student_id = profiles_id p, student_name = profiles_name p\<rparr>.
        p \<leftarrow> select_profiles db uid,
        is_true (sql_and (sql_eq (profiles_class_id p) (Some c))
                         (Some (profiles_role p = Student)))]"

subsection \<open>StudentDashboard\<close>

record student_post =
  spost_id :: uuid
  spost_title :: string
  spost_content :: string
  spost_created_at :: timestamp
  spost_profiles_name :: "string option"

record student_attendance_record =
  srecord_id :: uuid
  srecord_date :: string
  srecord_status :: attendance_status

record student_state =
  student_posts :: "student_post list"
  student_attendance :: "student_attendance_record list"
  student_loading :: bool

definition student_fetchPosts ::
  "student_post list response \<Rightarrow> student_state \<Rightarrow> student_state \<times> action list" where
  "student_fetchPosts r st =
     (case error r of
        Some e \<Rightarrow> (st, [error_toast ''Failed to fetch posts''])
      | None \<Rightarrow> (st\<lparr>student_posts := or_empty (data r)\<rparr>, []))"

definition student_fetchAttendance ::
  "student_attendance_record list response \<Rightarrow> student_state \<Rightarrow> student_state \<times> action list"
  where
  "student_fetchAttendance r st =
     (case error r of
        Some e \<Rightarrow> (st\<lparr>student_loading := False\<rparr>, [error_toast ''Failed to fetch attendance''])
      | None \<Rightarrow> (st\<lparr>student_attendance := or_empty (data r), student_loading := False\<rparr>, []))"

section \<open>The conditions of the specification\<close>

text \<open>
  The caller is a teacher with a class, and the student \<open>sid\<close> has a profile of that
  class.
\<close>

definition teacher_of_student :: "database \<Rightarrow> uuid option \<Rightarrow> uuid \<Rightarrow> bool" where
  "teacher_of_student db uid sid =
     (case uid of None \<Rightarrow> False
      | Some u \<Rightarrow>
          (case profile_of db u of None \<Rightarrow> False
           | Some t \<Rightarrow>
               profiles_role t = Teacher \<and>
               (case profiles_class_id t of None \<Rightarrow> False
                | Some c \<Rightarrow>
                    (case profile_of db sid of None \<Rightarrow> False
                     | Some s \<Rightarrow> profiles_class_id s = Some c))))"

text \<open>
  The caller is the teacher named by the post, with role teacher and the class of the
  post.
\<close>

definition author_of_class :: "database \<Rightarrow> uuid option \<Rightarrow> posts_row \<Rightarrow> bool" where
  "author_of_class db uid r =
     (uid = Some (posts_teacher_id r) \<and>
      (case profile_of db (posts_teacher_id r) of None \<Rightarrow> False
       | Some p \<Rightarrow> profiles_role p = Teacher \<and>
                   profiles_class_id p = Some (posts_class_id r)))"

text \<open>
  A failed call is surfaced and nothing more: a destructive toast is shown, no fetch is
  started again and the session is not ended.
\<close>

definition error_surfaced :: "action list \<Rightarrow> bool" where
  "error_surfaced acts =
     (list_ex (\<lambda>a. case a of Show_toast t \<Rightarrow> toast_variant t = Destructive | _ \<Rightarrow> False) acts
      \<and> Run_fetchPosts \<notin> set acts
      \<and> Run_fetchAttendance \<notin> set acts
      \<and> Run_signOut \<notin> set acts)"

definition teacher_lists_unchanged :: "teacher_state \<Rightarrow> teacher_state \<Rightarrow> bool" where
  "teacher_lists_unchanged st st' =
     (teacher_posts st' = teacher_posts st
      \<and> teacher_students st' = teacher_students st
      \<and> teacher_attendance st' = teacher_attendance st)"

definition student_lists_unchanged :: "student_state \<Rightarrow> student_state \<Rightarrow> bool" where
  "student_lists_unchanged st st' =
     (student_posts st' = student_posts st
      \<and> student_attendance st' = student_attendance st)"

section \<open>Example databases\<close>

definition teacher_1 :: profiles_row where
  "teacher_1 = \<lparr>profiles_id = 1, profiles_name = ''Ada'', profiles_role = Teacher,
                 profiles_class_id = Some 10, profiles_created_at = 0, profiles_updated_at = 0\<rparr>"

definition student_2 :: profiles_row where
  "student_2 = \<lparr>profiles_id = 2, profiles_name = ''Bob'', profiles_role = Student,
                 profiles_class_id = Some 10, profiles_created_at = 0, profiles_updated_at = 0\<rparr>"

definition student_3 :: profiles_row where
  "student_3 = \<lparr>profiles_id = 3, profiles_name = ''Cy'', profiles_role = Student,
                 profiles_class_id = Some 20, profiles_created_at = 0, profiles_updated_at = 0\<rparr>"

definition post_100 :: posts_row where
  "post_100 = \<lparr>posts_id = 100, posts_teacher_id = 1, posts_class_id = 10,
                posts_title = ''Quiz'', posts_content = ''Friday'', posts_created_at = 5\<rparr>"

definition mark_of :: "uuid \<Rightarrow> uuid \<Rightarrow> attendance_status \<Rightarrow> attendance_row" where
  "mark_of i sid s =
     \<lparr>attendance_id = i, attendance_student_id = sid, attendance_date = Date 2024 1 1,
      attendance_status = s, attendance_created_at = 7\<rparr>"

definition user_of :: "uuid \<Rightarrow> auth_users_row" where
  "user_of u = \<lparr>users_id = u, users_email = Some ''u@school.example'',
                users_raw_user_meta_data = []\<rparr>"

text \<open>An identity that asks for a role that is no label of \<open>user_role\<close>.\<close>

definition user_admin :: auth_users_row where
  "user_admin = \<lparr>users_id = 5, users_email = Some ''eve@school.example'',
                  users_raw_user_meta_data = [(''role'', ''admin'')]\<rparr>"

text \<open>An identity with neither a name in its metadata nor an email.\<close>

definition user_nameless :: auth_users_row where
  "user_nameless = \<lparr>users_id = 6, users_email = None,
                     users_raw_user_meta_data = [(''role'', ''teacher'')]\<rparr>"

text \<open>
  A teacher and a student of class 10, a student of class 20, one post of the teacher
  and one attendance row of each student.
\<close>

definition school_db :: database where
  "school_db =
     \<lparr>auth_users = [user_of 1, user_of 2, user_of 3],
      classes = [\<lparr>classes_id = 10, classes_name = ''Class A'', classes_created_at = 0\<rparr>,
                 \<lparr>classes_id = 20, classes_name = ''Class B'', classes_created_at = 0\<rparr>],
      profiles = [teacher_1, student_2, student_3],
      posts = [post_100],
      attendance = [mark_of 200 2 Present, mark_of 201 3 Absent]\<rparr>"

text \<open>An empty roster: class 10, the teacher and the student of it, nothing marked.\<close>

definition fresh_db :: database where
  "fresh_db =
     \<lparr>auth_users = [user_of 1, user_of 2],
      classes = [\<lparr>classes_id = 10, classes_name = ''Class A'', classes_created_at = 0\<rparr>],
      profiles = [teacher_1, student_2],
      posts = [],
      attendance = []\<rparr>"

section \<open>Auxiliary facts\<close>

lemmas example_defs = school_db_def fresh_db_def teacher_1_def
  student_2_def student_3_def post_100_def mark_of_def user_of_def user_admin_def
  user_nameless_def

lemma is_true_Some: "is_true (Some b) = b"
  by (simp add: is_true_def)

lemma is_true_sql_eq: "is_true (sql_eq a b) \<longleftrightarrow> (\<exists>x. a = Some x \<and> b = Some x)"
  by (auto simp: is_true_def sql_eq_def split: option.splits)

lemma is_true_sql_and: "is_true (sql_and a b) \<longleftrightarrow> is_true a \<and> is_true b"
  by (auto simp: is_true_def sql_and_def)

lemma is_true_sql_in: "is_true (sql_in x ys) \<longleftrightarrow> (\<exists>v. x = Some v \<and> Some v \<in> set ys)"
  by (auto simp: is_true_def sql_in_def split: option.splits)

lemmas sql_true = is_true_Some is_true_sql_eq is_true_sql_and is_true_sql_in

lemma find_distinct_key:
  "distinct (map f xs) \<Longrightarrow> find (\<lambda>x. f x = k) xs = Some p \<longleftrightarrow> p \<in> set xs \<and> f p = k"
  by (induction xs) (auto simp: image_iff)

lemma profile_of_iff:
  "pk_profiles db \<Longrightarrow>
   profile_of db u = Some p \<longleftrightarrow> p \<in> set (profiles db) \<and> profiles_id p = u"
  unfolding pk_profiles_def profile_of_def by (rule find_distinct_key)

lemma caller_class_ids_iff:
  "pk_profiles db \<Longrightarrow>
   x \<in> set (caller_class_ids db uid) \<longleftrightarrow>
     (\<exists>u p. uid = Some u \<and> profile_of db u = Some p \<and> profiles_class_id p = x)"
  by (auto simp: caller_class_ids_def sql_true profile_of_iff)

lemma caller_teacher_class_ids_iff:
  "pk_profiles db \<Longrightarrow>
   x \<in> set (caller_teacher_class_ids db uid) \<longleftrightarrow>
     (\<exists>u p. uid = Some u \<and> profile_of db u = Some p \<and> profiles_role p = Teacher
        \<and> profiles_class_id p = x)"
  by (auto simp: caller_teacher_class_ids_def sql_true profile_of_iff)

lemma select_profiles_iff:
  "p \<in> set (select_profiles db uid) \<longleftrightarrow> p \<in> set (profiles db) \<and> uid = Some (profiles_id p)"
  by (auto simp: select_profiles_def profiles_select_policy_def is_true_sql_eq)

lemma own_rows_rls:
  "concat (map (\<lambda>p. if is_true (sql_and (sql_eq (Some (profiles_id p)) uid) (Some (c p)))
                     then [f p] else []) (filter (profiles_select_policy uid) xs))
   = concat (map (\<lambda>p. if is_true (sql_and (sql_eq (Some (profiles_id p)) uid) (Some (c p)))
                       then [f p] else []) xs)"
  by (induction xs) (auto simp: profiles_select_policy_def sql_true)

lemma caller_class_ids_rls:
  "caller_class_ids db uid =
     [profiles_class_id p. p \<leftarrow> select_profiles db uid,
        is_true (sql_eq (Some (profiles_id p)) uid)]"
  using own_rows_rls [of uid "\<lambda>p. True" profiles_class_id "profiles db"]
  by (simp add: caller_class_ids_def select_profiles_def is_true_sql_and is_true_Some)

lemma caller_teacher_class_ids_rls:
  "caller_teacher_class_ids db uid =
     [profiles_class_id p. p \<leftarrow> select_profiles db uid,
        is_true (sql_and (sql_eq (Some (profiles_id p)) uid)
                         (Some (profiles_role p = Teacher)))]"
  using own_rows_rls [of uid "\<lambda>p. profiles_role p = Teacher" profiles_class_id "profiles db"]
  by (simp add: caller_teacher_class_ids_def select_profiles_def)

text \<open>
  What the subquery of the teacher policies gives: the caller's own identity, when the
  caller's profile has role teacher and a class, and nothing else.
\<close>

lemma teacher_class_students_own:
  "Some s \<in> set (teacher_class_students db uid) \<Longrightarrow> uid = Some s"
  by (auto simp: teacher_class_students_def select_profiles_iff)

lemma teacher_class_students_iff:
  "pk_profiles db \<Longrightarrow>
   Some s \<in> set (teacher_class_students db uid) \<longleftrightarrow>
     uid = Some s \<and>
     (\<exists>t c. profile_of db s = Some t \<and> profiles_role t = Teacher \<and> profiles_class_id t = Some c)"
proof (intro iffI conjI; (elim conjE exE)?)
  assume pk: "pk_profiles db" and m: "Some s \<in> set (teacher_class_students db uid)"
  from m show "uid = Some s"
    by (rule teacher_class_students_own)
  from m pk show "\<exists>t c. profile_of db s = Some t \<and> profiles_role t = Teacher
      \<and> profiles_class_id t = Some c"
    by (auto simp: teacher_class_students_def select_profiles_iff sql_true profile_of_iff)
next
  fix t c
  assume pk: "pk_profiles db" and u: "uid = Some s" and t: "profile_of db s = Some t"
    "profiles_role t = Teacher" "profiles_class_id t = Some c"
  from pk t(1) have "t \<in> set (select_profiles db uid)"
    using u by (simp add: select_profiles_iff profile_of_iff)
  moreover have "profiles_id t = s"
    using pk t(1) by (simp add: profile_of_iff)
  ultimately show "Some s \<in> set (teacher_class_students db uid)"
    using t(2,3) u by (force simp: teacher_class_students_def sql_true)
qed

lemma filter_key_le1:
  "distinct (map f xs) \<Longrightarrow> length (filter (\<lambda>x. f x = k) xs) \<le> Suc 0"
  by (induction xs) (auto simp: filter_empty_conv image_iff)

lemma classes_select_policy_iff:
  "pk_profiles db \<Longrightarrow>
   classes_select_policy db uid c \<longleftrightarrow>
     (\<exists>u p. uid = Some u \<and> profile_of db u = Some p
        \<and> profiles_class_id p = Some (classes_id c))"
  by (auto simp: classes_select_policy_def sql_true caller_class_ids_iff)

lemma select_classes_le1:
  assumes "pk_profiles db" and "pk_classes db"
  shows "length (select_classes db uid) \<le> 1"
proof (cases "\<exists>u p k. uid = Some u \<and> profile_of db u = Some p \<and> profiles_class_id p = Some k")
  case True
  then obtain u p k where
    h: "uid = Some u" "profile_of db u = Some p" "profiles_class_id p = Some k"
    by blast
  have "classes_select_policy db uid = (\<lambda>c. classes_id c = k)"
    using h assms(1) by (auto simp: classes_select_policy_iff fun_eq_iff)
  then show ?thesis
    using filter_key_le1[of classes_id "classes db" k] assms(2)
    by (simp add: select_classes_def pk_classes_def)
next
  case False
  then have "classes_select_policy db uid = (\<lambda>c. False)"
    using assms(1) by (auto simp: classes_select_policy_iff fun_eq_iff)
  then show ?thesis by (simp add: select_classes_def)
qed

lemma pk_profiles_school_db: "pk_profiles school_db"
  by (simp add: pk_profiles_def example_defs)

section \<open>Access to attendance\<close>

lemma teacher_policies_own_id:
  assumes "pk_profiles db"
  shows "attendance_teacher_select_policy db uid a \<longleftrightarrow>
           uid = Some (attendance_student_id a) \<and>
           (\<exists>t c. profile_of db (attendance_student_id a) = Some t \<and> profiles_role t = Teacher
              \<and> profiles_class_id t = Some c)"
    and "attendance_insert_check db uid a = attendance_teacher_select_policy db uid a"
    and "attendance_update_policy db uid a = attendance_teacher_select_policy db uid a"
  using assms
  by (simp_all add: attendance_teacher_select_policy_def attendance_insert_check_def
      attendance_update_policy_def is_true_sql_in teacher_class_students_iff)

text \<open>
  C1. A teacher should read and write the attendance rows of exactly the students whose
  profile has the teacher's class. The policies do not do that: their subquery reads
  \<open>profiles\<close> as the caller, who reads the own row only, so it gives the teacher's own
  identity and no student's. Teacher 1 and student 2 are both of class 10, and the row
  of student 2 passes none of the three teacher policies for teacher 1 and is not among
  the rows teacher 1 reads.
\<close>

theorem teacher_policies_miss_class_students:
  "profile_of school_db 1 = Some teacher_1
   \<and> profiles_role teacher_1 = Teacher
   \<and> profile_of school_db 2 = Some student_2
   \<and> profiles_class_id student_2 = Some 10
   \<and> profiles_class_id teacher_1 = Some 10
   \<and> teacher_of_student school_db (Some 1) 2
   \<and> select_profiles school_db (Some 1) = [teacher_1]
   \<and> teacher_class_students school_db (Some 1) = [Some 1]
   \<and> \<not> attendance_teacher_select_policy school_db (Some 1) (mark_of 200 2 Present)
   \<and> \<not> attendance_insert_check school_db (Some 1) (mark_of 200 2 Present)
   \<and> \<not> attendance_update_policy school_db (Some 1) (mark_of 200 2 Present)
   \<and> select_attendance school_db (Some 1) = []"
  by (simp add: profile_of_def teacher_of_student_def select_profiles_def
      profiles_select_policy_def attendance_teacher_select_policy_def
      attendance_insert_check_def attendance_update_policy_def select_attendance_def
      attendance_select_policy_def attendance_student_select_policy_def
      teacher_class_students_def sql_eq_def sql_and_def sql_in_def is_true_def example_defs)

section \<open>Creating posts\<close>

text \<open>
  C2. The \<open>INSERT\<close> check of posts holds if and only if the caller is the
  \<open>teacher_id\<close> of the new row and the caller's profile has role teacher and the
  \<open>class_id\<close> of the new row; a row whose \<open>teacher_id\<close> is not the caller is rejected
  whatever its \<open>class_id\<close>.
\<close>

theorem posts_insert_check_iff:
  assumes "pk_profiles db"
  shows "(posts_insert_check db uid r \<longleftrightarrow> author_of_class db uid r)
       \<and> (uid \<noteq> Some (posts_teacher_id r) \<longrightarrow>
            (\<forall>c. \<not> posts_insert_check db uid (r\<lparr>posts_class_id := c\<rparr>)))"
proof -
  have "posts_insert_check db uid r \<longleftrightarrow> author_of_class db uid r" for r
    using assms
    by (auto simp: posts_insert_check_def author_of_class_def sql_true
        caller_teacher_class_ids_iff split: option.splits)
  then show ?thesis
    by (simp add: author_of_class_def)
qed

theorem posts_insert_check_iff_witness:
  "pk_profiles school_db
   \<and> posts_insert_check school_db (Some 1) post_100
   \<and> \<not> posts_insert_check school_db (Some 1) (post_100\<lparr>posts_class_id := 20\<rparr>)
   \<and> \<not> posts_insert_check school_db (Some 2) post_100
   \<and> Some 2 \<noteq> Some (posts_teacher_id post_100)
   \<and> \<not> posts_insert_check school_db (Some 2) (post_100\<lparr>posts_class_id := 10\<rparr>)"
  using pk_profiles_school_db
    posts_insert_check_iff [OF pk_profiles_school_db, of "Some 1" post_100]
    posts_insert_check_iff [OF pk_profiles_school_db, of "Some 1" "post_100\<lparr>posts_class_id := 20\<rparr>"]
    posts_insert_check_iff [OF pk_profiles_school_db, of "Some 2" post_100]
  by (simp add: author_of_class_def profile_of_def example_defs)

section \<open>What a student reads of attendance\<close>

text \<open>
  C4. Every attendance row that a \<open>SELECT\<close> returns to a caller whose profile has
  role student carries the caller's identity as \<open>student_id\<close>.
\<close>

theorem student_sees_own_attendance:
  assumes "pk_profiles db" and "profile_of db u = Some p" and "profiles_role p = Student"
  shows "\<forall>a \<in> set (select_attendance db (Some u)). attendance_student_id a = u"
proof
  fix a
  assume "a \<in> set (select_attendance db (Some u))"
  then have vis: "attendance_select_policy db (Some u) a"
    by (simp add: select_attendance_def)
  have "\<not> attendance_teacher_select_policy db (Some u) a"
    using assms
    by (auto simp: attendance_teacher_select_policy_def is_true_sql_in teacher_class_students_iff)
  with vis have "attendance_student_select_policy (Some u) a"
    by (simp add: attendance_select_policy_def)
  then show "attendance_student_id a = u"
    by (simp add: attendance_student_select_policy_def is_true_sql_eq)
qed

theorem student_sees_own_attendance_witness:
  "pk_profiles school_db \<and> profile_of school_db 2 = Some student_2
   \<and> profiles_role student_2 = Student
   \<and> select_attendance school_db (Some 2) = [mark_of 200 2 Present]
   \<and> attendance_student_id (mark_of 200 2 Present) = 2"
proof -
  have p: "profile_of school_db 2 = Some student_2"
    by (simp add: profile_of_def example_defs)
  have r: "profiles_role student_2 = Student"
    by (simp add: student_2_def)
  have s: "select_attendance school_db (Some 2) = [mark_of 200 2 Present]"
    by (simp add: select_attendance_def attendance_select_policy_def
        attendance_student_select_policy_def attendance_teacher_select_policy_def
        teacher_class_students_def select_profiles_def profiles_select_policy_def
        sql_eq_def sql_and_def sql_in_def is_true_def example_defs)
  show ?thesis
    using pk_profiles_school_db p r s
      student_sees_own_attendance [OF pk_profiles_school_db p r]
    by simp
qed

section \<open>What a caller reads of classes\<close>

text \<open>
  C8. A caller with profile \<open>p\<close> may \<open>SELECT\<close> a class row \<open>c\<close> if and only if the
  \<open>class_id\<close> of \<open>p\<close> is the \<open>id\<close> of \<open>c\<close>; every caller sees at most one class row.
\<close>

theorem class_visible_iff_own:
  assumes "pk_profiles db" and "pk_classes db" and "profile_of db u = Some p"
  shows "(classes_select_policy db (Some u) c \<longleftrightarrow> profiles_class_id p = Some (classes_id c))
       \<and> (\<forall>uid. length (select_classes db uid) \<le> 1)"
proof -
  have "classes_select_policy db (Some u) c \<longleftrightarrow> profiles_class_id p = Some (classes_id c)"
    using assms(1,3) by (simp add: classes_select_policy_iff)
  moreover have "length (select_classes db uid) \<le> 1" for uid
    using assms(1,2) by (rule select_classes_le1)
  ultimately show ?thesis by blast
qed

theorem class_visible_iff_own_witness:
  "pk_profiles school_db \<and> pk_classes school_db \<and> profile_of school_db 3 = Some student_3
   \<and> classes_select_policy school_db (Some 3)
        \<lparr>classes_id = 20, classes_name = ''Class B'', classes_created_at = 0\<rparr>
   \<and> \<not> classes_select_policy school_db (Some 3)
        \<lparr>classes_id = 10, classes_name = ''Class A'', classes_created_at = 0\<rparr>
   \<and> length (select_classes school_db (Some 3)) \<le> 1"
proof -
  have c: "pk_classes school_db"
    by (simp add: pk_classes_def example_defs)
  have p: "profile_of school_db 3 = Some student_3"
    by (simp add: profile_of_def example_defs)
  show ?thesis
    using pk_profiles_school_db c p
      class_visible_iff_own [OF pk_profiles_school_db c p,
        of "\<lparr>classes_id = 20, classes_name = ''Class B'', classes_created_at = 0\<rparr>"]
      class_visible_iff_own [OF pk_profiles_school_db c p,
        of "\<lparr>classes_id = 10, classes_name = ''Class A'', classes_created_at = 0\<rparr>"]
    by (simp add: student_3_def)
qed

section \<open>Removing an identity\<close>

lemma filter_other_key_remove1:
  "distinct (map f xs) \<Longrightarrow> p \<in> set xs \<Longrightarrow> filter (\<lambda>q. f q \<noteq> f p) xs = remove1 p xs"
proof (induction xs)
  case Nil
  then show ?case by simp
next
  case (Cons x xs)
  show ?case
  proof (cases "x = p")
    case True
    have "\<forall>q \<in> set xs. f q \<noteq> f p"
      using Cons.prems(1) True by (auto simp: image_iff)
    then have "filter (\<lambda>q. f q \<noteq> f p) xs = xs"
      by (simp add: filter_id_conv)
    with True show ?thesis by simp
  next
    case False
    with Cons.prems have "p \<in> set xs" and "f x \<noteq> f p"
      by (auto simp: image_iff)
    with Cons False show ?thesis by simp
  qed
qed

text \<open>
  C6, as the foreign keys have it. Deleting an identity that has a profile: when no
  post and no attendance row references the profile, the delete removes exactly that
  profile row and leaves classes, posts and attendance as they are; when a post or an
  attendance row references it, the delete is rejected as a whole.
\<close>

theorem delete_auth_user_effect:
  assumes "pk_profiles db" and "profile_of db u = Some p"
    and "u \<in> set (map users_id (auth_users db))"
  shows "(profile_referenced db u \<longrightarrow> delete_auth_user db u = Inl Foreign_key_violation)
       \<and> (\<not> profile_referenced db u \<longrightarrow>
            (\<exists>db'. delete_auth_user db u = Inr db'
               \<and> profiles db' = remove1 p (profiles db)
               \<and> profile_of db' u = None
               \<and> classes db' = classes db
               \<and> posts db' = posts db
               \<and> attendance db' = attendance db))"
proof -
  from assms(1,2) have mem: "p \<in> set (profiles db)" and pid: "profiles_id p = u"
    by (simp_all add: profile_of_iff)
  then have in_ids: "u \<in> set (map profiles_id (profiles db))"
    by force
  have rem: "filter (\<lambda>q. profiles_id q \<noteq> u) (profiles db) = remove1 p (profiles db)"
    using filter_other_key_remove1[of profiles_id "profiles db" p] assms(1) mem pid
    by (simp add: pk_profiles_def)
  have gone: "find (\<lambda>q. profiles_id q = u) (filter (\<lambda>q. profiles_id q \<noteq> u) (profiles db)) = None"
    by (simp add: find_None_iff)
  show ?thesis
    using assms(3) in_ids rem gone
    by (simp add: delete_auth_user_def profile_of_def)
qed

theorem delete_auth_user_effect_witness:
  "pk_profiles fresh_db \<and> profile_of fresh_db 1 = Some teacher_1
   \<and> 1 \<in> set (map users_id (auth_users fresh_db))
   \<and> \<not> profile_referenced fresh_db 1
   \<and> delete_auth_user fresh_db 1 =
        Inr (fresh_db\<lparr>auth_users := [user_of 2], profiles := [student_2]\<rparr>)
   \<and> profile_referenced school_db 1
   \<and> delete_auth_user school_db 1 = Inl Foreign_key_violation"
proof -
  have pk: "pk_profiles fresh_db"
    by (simp add: pk_profiles_def example_defs)
  have p: "profile_of fresh_db 1 = Some teacher_1"
    by (simp add: profile_of_def example_defs)
  have u: "1 \<in> set (map users_id (auth_users fresh_db))"
    by (simp add: example_defs)
  have p': "profile_of school_db 1 = Some teacher_1"
    by (simp add: profile_of_def example_defs)
  have u': "1 \<in> set (map users_id (auth_users school_db))"
    by (simp add: example_defs)
  have r: "\<not> profile_referenced fresh_db 1"
    by (simp add: profile_referenced_def example_defs)
  have r': "profile_referenced school_db 1"
    by (simp add: profile_referenced_def example_defs)
  have d: "delete_auth_user fresh_db 1 =
        Inr (fresh_db\<lparr>auth_users := [user_of 2], profiles := [student_2]\<rparr>)"
    by (simp add: delete_auth_user_def profile_referenced_def example_defs)
  show ?thesis
    using pk p u r r' d delete_auth_user_effect [OF pk p u]
      delete_auth_user_effect [OF pk_profiles_school_db p' u']
    by simp
qed

text \<open>
  C6 as stated fails for an identity whose profile authored a post: the delete is
  rejected and the profile row stays.
\<close>

theorem delete_auth_user_referenced_counterexample:
  "1 \<in> set (map users_id (auth_users school_db))
   \<and> profile_of school_db 1 = Some teacher_1
   \<and> posts_teacher_id post_100 = 1 \<and> post_100 \<in> set (posts school_db)
   \<and> delete_auth_user school_db 1 = Inl Foreign_key_violation"
  by (simp add: delete_auth_user_def profile_referenced_def profile_of_def example_defs)

section \<open>Creating an identity\<close>

text \<open>
  C7, as the trigger has it. On the insertion of a new identity:
  \<^item> when the role of the metadata is absent or a label of \<open>user_role\<close>, and a name is
    given by the metadata or else by the email, the trigger adds exactly one profile row
    for the identity and nothing else changes but the identity added; without a role in
    the metadata the role is student, and without a name in the metadata the name is
    the email;
  \<^item> for any other text as role the trigger raises on the cast and the insertion is
    rejected;
  \<^item> with a role that is absent or a label, and neither a name in the metadata nor an
    email, the trigger raises on \<open>NOT NULL\<close> and the insertion is rejected.
\<close>

theorem handle_new_user_creates_profile:
  assumes "users_id new \<notin> set (map users_id (auth_users db))"
    and "users_id new \<notin> set (map profiles_id (profiles db))"
  shows
    "(json_text (users_raw_user_meta_data new) ''role''
          \<in> {None, Some ''student'', Some ''teacher''}
      \<and> coalesce (json_text (users_raw_user_meta_data new) ''name'') (users_email new) = Some n
      \<longrightarrow> (\<exists>p. handle_new_user (db\<lparr>auth_users := auth_users db @ [new]\<rparr>) now new
                 = Inr (db\<lparr>auth_users := auth_users db @ [new], profiles := profiles db @ [p]\<rparr>)
             \<and> insert_auth_user db now new
                 = Inr (db\<lparr>auth_users := auth_users db @ [new], profiles := profiles db @ [p]\<rparr>)
             \<and> filter (\<lambda>q. profiles_id q = users_id new) (profiles db @ [p]) = [p]
             \<and> profiles_id p = users_id new
             \<and> profiles_name p = n
             \<and> (json_text (users_raw_user_meta_data new) ''role'' = None
                  \<longrightarrow> profiles_role p = Student)
             \<and> (json_text (users_raw_user_meta_data new) ''name'' = None
                  \<longrightarrow> Some (profiles_name p) = users_email new)))
   \<and> (json_text (users_raw_user_meta_data new) ''role''
          \<notin> {None, Some ''student'', Some ''teacher''}
      \<longrightarrow> handle_new_user (db\<lparr>auth_users := auth_users db @ [new]\<rparr>) now new
            = Inl Invalid_enum_value
          \<and> insert_auth_user db now new = Inl Invalid_enum_value)
   \<and> (json_text (users_raw_user_meta_data new) ''role''
          \<in> {None, Some ''student'', Some ''teacher''}
      \<and> coalesce (json_text (users_raw_user_meta_data new) ''name'') (users_email new) = None
      \<longrightarrow> handle_new_user (db\<lparr>auth_users := auth_users db @ [new]\<rparr>) now new
            = Inl Not_null_violation
          \<and> insert_auth_user db now new = Inl Not_null_violation)"
proof -
  let ?db = "db\<lparr>auth_users := auth_users db @ [new]\<rparr>"
  let ?role = "json_text (users_raw_user_meta_data new) ''role''"
  let ?name = "coalesce (json_text (users_raw_user_meta_data new) ''name'') (users_email new)"
  have ins: "insert_auth_user db now new = handle_new_user ?db now new"
    using assms(1) by (simp add: insert_auth_user_def)
  have none: "filter (\<lambda>q. profiles_id q = users_id new) (profiles db) = []"
    using assms(2) by (auto simp: filter_empty_conv image_iff)
  have bad: "handle_new_user ?db now new = Inl Invalid_enum_value"
    if "?role \<notin> {None, Some ''student'', Some ''teacher''}"
    using that by (auto simp: handle_new_user_def cast_user_role_def split: option.splits)
  have nameless: "handle_new_user ?db now new = Inl Not_null_violation"
    if "?role \<in> {None, Some ''student'', Some ''teacher''}" "?name = None"
    using that by (auto simp: handle_new_user_def cast_user_role_def)
  have good: "\<exists>p. handle_new_user ?db now new
                 = Inr (db\<lparr>auth_users := auth_users db @ [new], profiles := profiles db @ [p]\<rparr>)
             \<and> filter (\<lambda>q. profiles_id q = users_id new) (profiles db @ [p]) = [p]
             \<and> profiles_id p = users_id new
             \<and> profiles_name p = n
             \<and> (?role = None \<longrightarrow> profiles_role p = Student)
             \<and> (json_text (users_raw_user_meta_data new) ''name'' = None
                  \<longrightarrow> Some (profiles_name p) = users_email new)"
    if ok: "?role \<in> {None, Some ''student'', Some ''teacher''}" and nm: "?name = Some n"
  proof -
    from ok obtain r where
      c: "cast_user_role ?role = Inr r" and d: "?role = None \<longrightarrow> r = None"
      by (auto simp: cast_user_role_def)
    have e: "json_text (users_raw_user_meta_data new) ''name'' = None
        \<longrightarrow> Some n = users_email new"
      using nm by (auto simp: coalesce_def)
    show ?thesis
      using c d e nm assms(2) none
      by (auto simp: handle_new_user_def coalesce_def)
  qed
  show ?thesis
    using ins bad nameless good by metis
qed

theorem handle_new_user_creates_profile_witness:
  "users_id (user_of 5) \<notin> set (map users_id (auth_users fresh_db))
   \<and> users_id (user_of 5) \<notin> set (map profiles_id (profiles fresh_db))
   \<and> json_text (users_raw_user_meta_data (user_of 5)) ''role'' = None
   \<and> json_text (users_raw_user_meta_data (user_of 5)) ''name'' = None
   \<and> users_email (user_of 5) = Some ''u@school.example''
   \<and> insert_auth_user fresh_db 9 (user_of 5) =
        Inr (fresh_db\<lparr>auth_users := [user_of 1, user_of 2, user_of 5],
               profiles := [teacher_1, student_2,
               \<lparr>profiles_id = 5, profiles_name = ''u@school.example'',
                profiles_role = Student, profiles_class_id = None,
                profiles_created_at = 9, profiles_updated_at = 9\<rparr>]\<rparr>)
   \<and> users_id user_admin \<notin> set (map users_id (auth_users fresh_db))
   \<and> users_id user_admin \<notin> set (map profiles_id (profiles fresh_db))
   \<and> json_text (users_raw_user_meta_data user_admin) ''role'' = Some ''admin''
   \<and> insert_auth_user fresh_db 9 user_admin = Inl Invalid_enum_value
   \<and> users_id user_nameless \<notin> set (map users_id (auth_users fresh_db))
   \<and> users_id user_nameless \<notin> set (map profiles_id (profiles fresh_db))
   \<and> json_text (users_raw_user_meta_data user_nameless) ''role'' = Some ''teacher''
   \<and> coalesce (json_text (users_raw_user_meta_data user_nameless) ''name'')
        (users_email user_nameless) = None
   \<and> insert_auth_user fresh_db 9 user_nameless = Inl Not_null_violation"
proof -
  have a: "users_id (user_of 5) \<notin> set (map users_id (auth_users fresh_db))"
    "users_id (user_of 5) \<notin> set (map profiles_id (profiles fresh_db))"
    by (simp_all add: example_defs)
  have b: "users_id user_admin \<notin> set (map users_id (auth_users fresh_db))"
    "users_id user_admin \<notin> set (map profiles_id (profiles fresh_db))"
    by (simp_all add: example_defs)
  have c: "users_id user_nameless \<notin> set (map users_id (auth_users fresh_db))"
    "users_id user_nameless \<notin> set (map profiles_id (profiles fresh_db))"
    by (simp_all add: example_defs)
  have good: "insert_auth_user fresh_db 9 (user_of 5) =
        Inr (fresh_db\<lparr>auth_users := [user_of 1, user_of 2, user_of 5],
               profiles := [teacher_1, student_2,
               \<lparr>profiles_id = 5, profiles_name = ''u@school.example'',
                profiles_role = Student, profiles_class_id = None,
                profiles_created_at = 9, profiles_updated_at = 9\<rparr>]\<rparr>)"
    using handle_new_user_creates_profile [OF a, where n = "''u@school.example''" and now = 9]
    by (simp add: insert_auth_user_def handle_new_user_def json_text_def coalesce_def
        cast_user_role_def example_defs)
  have bad: "insert_auth_user fresh_db 9 user_admin = Inl Invalid_enum_value"
    using handle_new_user_creates_profile [OF b, where now = 9]
    by (simp add: json_text_def user_admin_def)
  have nameless: "insert_auth_user fresh_db 9 user_nameless = Inl Not_null_violation"
    using handle_new_user_creates_profile [OF c, where now = 9]
    by (simp add: json_text_def coalesce_def user_nameless_def)
  show ?thesis
    using a b c good bad nameless
    by (simp add: json_text_def coalesce_def user_of_def user_admin_def user_nameless_def)
qed

text \<open>
  C7 as stated fails for an identity whose metadata asks for a role that is no label
  of \<open>user_role\<close>, and for an identity with neither a name in its metadata nor an
  email: the trigger raises, no profile row is created and the insertion of the
  identity is rejected.
\<close>

theorem handle_new_user_bad_role_counterexample:
  "handle_new_user (fresh_db\<lparr>auth_users := auth_users fresh_db @ [user_admin]\<rparr>) 9 user_admin
     = Inl Invalid_enum_value
   \<and> insert_auth_user fresh_db 9 user_admin = Inl Invalid_enum_value
   \<and> handle_new_user (fresh_db\<lparr>auth_users := auth_users fresh_db @ [user_nameless]\<rparr>) 9
        user_nameless = Inl Not_null_violation
   \<and> insert_auth_user fresh_db 9 user_nameless = Inl Not_null_violation"
  by (simp add: insert_auth_user_def handle_new_user_def json_text_def cast_user_role_def
      coalesce_def example_defs)

section \<open>Marking attendance twice\<close>

lemma filter_key_single:
  "distinct (map f xs) \<Longrightarrow> x \<in> set xs \<Longrightarrow> filter (\<lambda>y. f y = f x) xs = [x]"
proof (induction xs)
  case Nil
  then show ?case by simp
next
  case (Cons y ys)
  show ?case
  proof (cases "y = x")
    case True
    have "\<forall>z \<in> set ys. f z \<noteq> f x"
      using Cons.prems(1) True by (auto simp: image_iff)
    then have "filter (\<lambda>z. f z = f x) ys = []"
      by (simp add: filter_empty_conv)
    with True show ?thesis by simp
  next
    case False
    with Cons.prems have "x \<in> set ys" and "f y \<noteq> f x"
      by (auto simp: image_iff)
    with Cons show ?thesis by simp
  qed
qed

lemma filter_map_if:
  "(\<And>a. P a \<Longrightarrow> P (g a)) \<Longrightarrow>
   filter P (map (\<lambda>a. if P a then g a else a) xs) = map g (filter P xs)"
  by (induction xs) auto

lemma teacher_policies_student_id:
  "attendance_insert_check db uid a
     = is_true (sql_in (Some (attendance_student_id a)) (teacher_class_students db uid))"
  "attendance_update_policy db uid a
     = is_true (sql_in (Some (attendance_student_id a)) (teacher_class_students db uid))"
  "attendance_teacher_select_policy db uid a
     = is_true (sql_in (Some (attendance_student_id a)) (teacher_class_students db uid))"
  by (simp_all add: attendance_insert_check_def attendance_update_policy_def
      attendance_teacher_select_policy_def)

lemma teacher_class_students_has_profile:
  "Some sid \<in> set (teacher_class_students db uid) \<Longrightarrow> sid \<in> set (map profiles_id (profiles db))"
  by (auto simp: teacher_class_students_def select_profiles_iff)

lemma upsert_attendance_insert_path:
  assumes uq: "unique_attendance db"
    and perm: "Some sid \<in> set (teacher_class_students db uid)"
    and absent: "\<forall>a \<in> set (attendance db). attendance_key a \<noteq> (sid, d)"
    and fresh: "new_id \<notin> set (map attendance_id (attendance db))"
  shows "upsert_attendance db uid new_id now sid d s
           = Inr (db\<lparr>attendance := attendance db @ [attendance_proposed new_id now sid d s]\<rparr>)"
proof -
  have f: "find (\<lambda>a. attendance_key a = (sid, d)) (attendance db) = None"
    using absent by (simp add: find_None_iff)
  have k: "sid \<in> set (map profiles_id (profiles db))"
    using perm by (rule teacher_class_students_has_profile)
  have c: "attendance_insert_check db uid (attendance_proposed new_id now sid d s)"
    using perm by (simp add: teacher_policies_student_id attendance_proposed_def is_true_sql_in)
  show ?thesis
    using f k c fresh by (simp add: upsert_attendance_def Let_def)
qed

lemma upsert_attendance_update_path:
  assumes perm: "Some sid \<in> set (teacher_class_students db uid)"
    and present: "old \<in> set (attendance db)" "attendance_key old = (sid, d)"
  shows "upsert_attendance db uid new_id now sid d s
           = Inr (db\<lparr>attendance :=
                  map (\<lambda>a. if attendance_key a = (sid, d)
                            then a\<lparr>attendance_student_id := sid, attendance_date := d,
                                   attendance_status := s\<rparr>
                            else a) (attendance db)\<rparr>)"
proof -
  obtain o' where f: "find (\<lambda>a. attendance_key a = (sid, d)) (attendance db) = Some o'"
    using present by (cases "find (\<lambda>a. attendance_key a = (sid, d)) (attendance db)")
      (auto simp: find_None_iff)
  then have ko: "attendance_student_id o' = sid"
    by (auto simp: find_Some_iff attendance_key_def)
  have k: "sid \<in> set (map profiles_id (profiles db))"
    using perm by (rule teacher_class_students_has_profile)
  have c: "attendance_insert_check db uid (attendance_proposed new_id now sid d s)"
    using perm by (simp add: teacher_policies_student_id attendance_proposed_def is_true_sql_in)
  have u: "attendance_update_policy db uid o'"
    "attendance_update_policy db uid
       (o'\<lparr>attendance_student_id := sid, attendance_date := d, attendance_status := s\<rparr>)"
    "attendance_select_policy db uid o'"
    "attendance_select_policy db uid
       (o'\<lparr>attendance_student_id := sid, attendance_date := d, attendance_status := s\<rparr>)"
    using perm ko
    by (simp_all add: attendance_select_policy_def teacher_policies_student_id is_true_sql_in)
  show ?thesis
    using f k c u by (simp add: upsert_attendance_def Let_def)
qed

lemma upsert_attendance_step:
  assumes uq: "unique_attendance db"
    and perm: "attendance_insert_check db uid (attendance_proposed new_id now sid d s)"
    and fresh: "(\<exists>a \<in> set (attendance db). attendance_key a = (sid, d))
                \<or> new_id \<notin> set (map attendance_id (attendance db))"
  shows "\<exists>db' r. upsert_attendance db uid new_id now sid d s = Inr db'
           \<and> profiles db' = profiles db
           \<and> unique_attendance db'
           \<and> r \<in> set (attendance db')
           \<and> filter (\<lambda>a. attendance_key a = (sid, d)) (attendance db') = [r]
           \<and> attendance_status r = s"
proof -
  have p: "Some sid \<in> set (teacher_class_students db uid)"
    using perm by (simp add: teacher_policies_student_id attendance_proposed_def is_true_sql_in)
  show ?thesis
  proof (cases "\<exists>a \<in> set (attendance db). attendance_key a = (sid, d)")
    case True
    then obtain old where o: "old \<in> set (attendance db)" "attendance_key old = (sid, d)"
      by blast
    let ?upd = "\<lambda>a. a\<lparr>attendance_student_id := sid, attendance_date := d,
                        attendance_status := s\<rparr>"
    let ?f = "\<lambda>a. if attendance_key a = (sid, d) then ?upd a else a"
    have keys: "map attendance_key (map ?f (attendance db)) = map attendance_key (attendance db)"
      by (simp add: attendance_key_def)
    have one: "filter (\<lambda>a. attendance_key a = (sid, d)) (attendance db) = [old]"
      using filter_key_single[of attendance_key "attendance db" old] uq o
      by (simp add: unique_attendance_def)
    have "filter (\<lambda>a. attendance_key a = (sid, d)) (map ?f (attendance db))
            = map ?upd (filter (\<lambda>a. attendance_key a = (sid, d)) (attendance db))"
      by (rule filter_map_if) (simp add: attendance_key_def)
    then have res: "filter (\<lambda>a. attendance_key a = (sid, d)) (map ?f (attendance db)) = [?upd old]"
      using one by simp
    have mem: "?upd old \<in> set (map ?f (attendance db))"
      using o by force
    let ?db' = "db\<lparr>attendance := map ?f (attendance db)\<rparr>"
    have 1: "upsert_attendance db uid new_id now sid d s = Inr ?db'"
      by (rule upsert_attendance_update_path[OF p o])
    have sel: "attendance ?db' = map ?f (attendance db)"
      by simp
    have 2: "unique_attendance ?db'"
      unfolding unique_attendance_def sel keys
      using uq [unfolded unique_attendance_def] .
    have 3: "?upd old \<in> set (attendance ?db')"
      using mem by simp
    have 4: "filter (\<lambda>a. attendance_key a = (sid, d)) (attendance ?db') = [?upd old]"
      using res by simp
    have 5: "attendance_status (?upd old) = s" "profiles ?db' = profiles db"
      by simp_all
    from 1 2 3 4 5 show ?thesis by blast
  next
    case False
    then have ab: "\<forall>a \<in> set (attendance db). attendance_key a \<noteq> (sid, d)" by blast
    with fresh have fr: "new_id \<notin> set (map attendance_id (attendance db))" by blast
    have none: "filter (\<lambda>a. attendance_key a = (sid, d)) (attendance db) = []"
      using ab by (simp add: filter_empty_conv)
    have knew: "attendance_key (attendance_proposed new_id now sid d s) = (sid, d)"
      by (simp add: attendance_key_def attendance_proposed_def)
    have nk: "(sid, d) \<notin> set (map attendance_key (attendance db))"
      using ab by (auto simp: image_iff)
    let ?new = "attendance_proposed new_id now sid d s"
    let ?db' = "db\<lparr>attendance := attendance db @ [?new]\<rparr>"
    have 1: "upsert_attendance db uid new_id now sid d s = Inr ?db'"
      by (rule upsert_attendance_insert_path[OF uq p ab fr])
    have 2: "unique_attendance ?db'"
      using uq nk knew unfolding unique_attendance_def by simp
    have 3: "?new \<in> set (attendance ?db')"
      by simp
    have 4: "filter (\<lambda>a. attendance_key a = (sid, d)) (attendance ?db') = [?new]"
      using none knew by simp
    have 5: "attendance_status ?new = s" "profiles ?db' = profiles db"
      by (simp_all add: attendance_proposed_def)
    from 1 2 3 4 5 show ?thesis by blast
  qed
qed

lemma attendance_insert_check_profiles:
  "profiles db' = profiles db \<Longrightarrow> attendance_insert_check db' uid a = attendance_insert_check db uid a"
  by (simp add: attendance_insert_check_def teacher_class_students_def select_profiles_def)

lemma mark_sequence_invariant:
  assumes "unique_attendance db" and "ms \<noteq> []"
    and "\<forall>m \<in> set ms. attendance_insert_check db (mark_caller m)
           (attendance_proposed (mark_new_id m) (mark_now m) sid d (mark_status m))"
    and "(\<exists>a \<in> set (attendance db). attendance_key a = (sid, d))
         \<or> (\<forall>m \<in> set ms. mark_new_id m \<notin> set (map attendance_id (attendance db)))"
  shows "unique_attendance (mark_sequence db sid d ms)
       \<and> (\<exists>r. filter (\<lambda>a. attendance_key a = (sid, d)) (attendance (mark_sequence db sid d ms)) = [r]
              \<and> attendance_status r = mark_status (last ms))"
  using assms
proof (induction ms arbitrary: db)
  case Nil
  then show ?case by simp
next
  case (Cons m ms)
  have perm: "attendance_insert_check db (mark_caller m)
      (attendance_proposed (mark_new_id m) (mark_now m) sid d (mark_status m))"
    using Cons.prems(3) by simp
  have fresh: "(\<exists>a \<in> set (attendance db). attendance_key a = (sid, d))
      \<or> mark_new_id m \<notin> set (map attendance_id (attendance db))"
    using Cons.prems(4) by auto
  from upsert_attendance_step [OF Cons.prems(1) perm fresh] obtain db' r where
    step: "upsert_attendance db (mark_caller m) (mark_new_id m) (mark_now m) sid d (mark_status m)
             = Inr db'"
      and prof: "profiles db' = profiles db"
      and uq': "unique_attendance db'"
      and mem: "r \<in> set (attendance db')"
      and one: "filter (\<lambda>a. attendance_key a = (sid, d)) (attendance db') = [r]"
      and st: "attendance_status r = mark_status m"
    by blast
  have run: "mark_sequence db sid d (m # ms) = mark_sequence db' sid d ms"
    using step by simp
  show ?case
  proof (cases "ms = []")
    case True
    then show ?thesis
      using run uq' one st by simp
  next
    case False
    have key: "attendance_key r = (sid, d)"
      using one by (auto simp: filter_eq_Cons_iff)
    have perm': "\<forall>m \<in> set ms. attendance_insert_check db' (mark_caller m)
           (attendance_proposed (mark_new_id m) (mark_now m) sid d (mark_status m))"
      using Cons.prems(3) by (simp add: attendance_insert_check_profiles [OF prof])
    have ex: "\<exists>a \<in> set (attendance db'). attendance_key a = (sid, d)"
      using mem key by blast
    have "unique_attendance (mark_sequence db' sid d ms)
       \<and> (\<exists>r. filter (\<lambda>a. attendance_key a = (sid, d)) (attendance (mark_sequence db' sid d ms)) = [r]
              \<and> attendance_status r = mark_status (last ms))"
      using Cons.IH [OF uq' False perm'] ex by blast
    then show ?thesis
      using run False by simp
  qed
qed

text \<open>
  The upsert itself keeps the constraint: on a table that satisfies
  \<open>UNIQUE (student_id, date)\<close>, any non-empty sequence of marks for a pair that the
  \<open>INSERT\<close> policy admits leaves exactly one row for the pair, with the status of the
  last mark.
\<close>

lemma mark_sequence_admitted_one_row:
  assumes "unique_attendance db" and "ms \<noteq> []"
    and "\<forall>m \<in> set ms. attendance_insert_check db (mark_caller m)
           (attendance_proposed (mark_new_id m) (mark_now m) sid d (mark_status m))"
    and "\<forall>m \<in> set ms. mark_new_id m \<notin> set (map attendance_id (attendance db))"
  shows "unique_attendance (mark_sequence db sid d ms)
       \<and> (\<exists>r. filter (\<lambda>a. attendance_student_id a = sid \<and> attendance_date a = d)
                 (attendance (mark_sequence db sid d ms)) = [r]
              \<and> attendance_status r = mark_status (last ms))"
proof -
  have k: "(\<lambda>a. attendance_key a = (sid, d))
      = (\<lambda>a. attendance_student_id a = sid \<and> attendance_date a = d)"
    by (simp add: attendance_key_def fun_eq_iff)
  have "(\<exists>a \<in> set (attendance db). attendance_key a = (sid, d))
         \<or> (\<forall>m \<in> set ms. mark_new_id m \<notin> set (map attendance_id (attendance db)))"
    using assms(4) by blast
  from mark_sequence_invariant [OF assms(1,2,3) this] show ?thesis
    unfolding k .
qed

text \<open>
  The marks the policy admits are those a teacher with a class makes for the own
  identity; there the two marks of one day leave one row, with the second status.
\<close>

lemma mark_sequence_own_id_example:
  "mark_sequence fresh_db 1 (Date 2024 1 1)
     [\<lparr>mark_caller = Some 1, mark_new_id = 300, mark_now = 7, mark_status = Present\<rparr>,
      \<lparr>mark_caller = Some 1, mark_new_id = 301, mark_now = 8, mark_status = Absent\<rparr>]
   = fresh_db\<lparr>attendance := [mark_of 300 1 Absent]\<rparr>"
  by (simp add: upsert_attendance_def attendance_insert_check_def attendance_update_policy_def
      attendance_select_policy_def attendance_student_select_policy_def
      attendance_teacher_select_policy_def attendance_proposed_def attendance_key_def
      teacher_class_students_def select_profiles_def profiles_select_policy_def
      sql_eq_def sql_and_def sql_in_def is_true_def example_defs)

text \<open>
  C3. After the marks for a student and a date, the table should hold exactly one row
  for the pair, with the status of the last mark. For the teacher of class 10 and the
  student of class 10 it holds none: the teacher marks the student present on
  2024-01-01 and then absent, the \<open>INSERT\<close> check rejects both marks, because its
  subquery gives the teacher's own identity only, and the table stays empty.
\<close>

theorem mark_sequence_class_student_no_row:
  "teacher_of_student fresh_db (Some 1) 2
   \<and> unique_attendance fresh_db
   \<and> upsert_attendance fresh_db (Some 1) 300 7 2 (Date 2024 1 1) Present = Inl Rls_violation
   \<and> upsert_attendance fresh_db (Some 1) 301 8 2 (Date 2024 1 1) Absent = Inl Rls_violation
   \<and> mark_sequence fresh_db 2 (Date 2024 1 1)
        [\<lparr>mark_caller = Some 1, mark_new_id = 300, mark_now = 7, mark_status = Present\<rparr>,
         \<lparr>mark_caller = Some 1, mark_new_id = 301, mark_now = 8, mark_status = Absent\<rparr>]
       = fresh_db
   \<and> filter (\<lambda>a. attendance_student_id a = 2 \<and> attendance_date a = Date 2024 1 1)
        (attendance (mark_sequence fresh_db 2 (Date 2024 1 1)
        [\<lparr>mark_caller = Some 1, mark_new_id = 300, mark_now = 7, mark_status = Present\<rparr>,
         \<lparr>mark_caller = Some 1, mark_new_id = 301, mark_now = 8, mark_status = Absent\<rparr>]))
       = []"
  by (simp add: teacher_of_student_def profile_of_def unique_attendance_def
      upsert_attendance_def attendance_insert_check_def attendance_proposed_def
      teacher_class_students_def select_profiles_def profiles_select_policy_def
      sql_eq_def sql_and_def sql_in_def is_true_def example_defs)

section \<open>Failed calls of the dashboards\<close>

text \<open>
  C9. When a data call of a dashboard returns an error, the component shows a
  destructive toast, leaves its lists of posts, students and attendance as they are,
  starts no call again and does not end the session.
\<close>

theorem dashboards_surface_errors:
  "(let (st', acts) = teacher_fetchPosts (Response d1 (Some e)) st
    in teacher_lists_unchanged st st' \<and> error_surfaced acts)
   \<and> (profiles_class_id profile \<noteq> None \<longrightarrow>
       (let (st', acts) = teacher_fetchStudents profile (Response d2 (Some e)) st
        in teacher_lists_unchanged st st' \<and> error_surfaced acts))
   \<and> (let (st', acts) = teacher_fetchAttendance (Response d3 (Some e)) st
       in teacher_lists_unchanged st st' \<and> error_surfaced acts)
   \<and> (let (st', acts) = handleCreatePost profile (Response d4 (Some e)) st
       in teacher_lists_unchanged st st' \<and> error_surfaced acts)
   \<and> (let (st', acts) = handleMarkAttendance (Response d5 (Some e)) st
       in teacher_lists_unchanged st st' \<and> error_surfaced acts)
   \<and> (let (st', acts) = student_fetchPosts (Response d6 (Some e)) sst
       in student_lists_unchanged sst st' \<and> error_surfaced acts)
   \<and> (let (st', acts) = student_fetchAttendance (Response d7 (Some e)) sst
       in student_lists_unchanged sst st' \<and> error_surfaced acts)"
  by (simp add: teacher_fetchPosts_def teacher_fetchStudents_def teacher_fetchAttendance_def
      handleCreatePost_def handleMarkAttendance_def student_fetchPosts_def
      student_fetchAttendance_def teacher_lists_unchanged_def student_lists_unchanged_def
      error_surfaced_def error_toast_def)

theorem dashboards_surface_errors_witness:
  "profiles_class_id teacher_1 \<noteq> None
   \<and> teacher_fetchStudents teacher_1 (Response None (Some ''timeout'')) (teacher_initial ''2024-01-01'')
       = (teacher_initial ''2024-01-01'', [error_toast ''Failed to fetch students''])
   \<and> (let (st', acts) = teacher_fetchStudents teacher_1 (Response None (Some ''timeout''))
                           (teacher_initial ''2024-01-01'')
       in teacher_lists_unchanged (teacher_initial ''2024-01-01'') st' \<and> error_surfaced acts)"
  using dashboards_surface_errors [where profile = teacher_1 and e = "''timeout''"
      and st = "teacher_initial ''2024-01-01''" and ?d2.0 = None]
  by (simp add: teacher_fetchStudents_def teacher_1_def)

section \<open>The roster of the teacher dashboard\<close>

lemma select_profiles_own:
  assumes "pk_profiles db" and "profile_of db u = Some t"
  shows "select_profiles db (Some u) = [t]"
proof -
  from assms have mem: "t \<in> set (profiles db)" and tid: "profiles_id t = u"
    by (simp_all add: profile_of_iff)
  have "profiles_select_policy (Some u) = (\<lambda>p. profiles_id p = profiles_id t)"
    using tid by (auto simp: profiles_select_policy_def is_true_sql_eq fun_eq_iff)
  then show ?thesis
    using filter_key_single [of profiles_id "profiles db" t] assms(1) mem
    by (simp add: select_profiles_def pk_profiles_def)
qed

text \<open>
  C10. For a caller whose profile has role teacher, the roster query of the teacher
  dashboard returns the empty list, for the teacher's own class as for any other: the
  \<open>SELECT\<close> policy of profiles admits the caller's own row only, and that row is not a
  student's. The list of students of the dashboard, empty at first, stays empty.
\<close>

theorem teacher_roster_is_empty:
  assumes "pk_profiles db" and "profile_of db u = Some t" and "profiles_role t = Teacher"
  shows "fetchStudents_query db (Some u) c = []
       \<and> (\<forall>err. teacher_students (fst (teacher_fetchStudents t
              (Response (Some (fetchStudents_query db (Some u) c)) err)
              (teacher_initial today))) = [])"
proof -
  have q: "fetchStudents_query db (Some u) c = []"
    using assms(3)
    by (simp add: fetchStudents_query_def select_profiles_own [OF assms(1,2)] sql_true)
  show ?thesis
    unfolding q
    by (simp add: teacher_fetchStudents_def teacher_initial_def or_empty_def
        split: option.splits)
qed

theorem teacher_roster_is_empty_witness:
  "pk_profiles school_db \<and> profile_of school_db 1 = Some teacher_1
   \<and> profiles_role teacher_1 = Teacher
   \<and> profiles_class_id teacher_1 = Some 10
   \<and> profiles_class_id student_2 = Some 10 \<and> profiles_role student_2 = Student
   \<and> student_2 \<in> set (profiles school_db)
   \<and> fetchStudents_query school_db (Some 1) 10 = []"
proof -
  have p: "profile_of school_db 1 = Some teacher_1"
    by (simp add: profile_of_def example_defs)
  have r: "profiles_role teacher_1 = Teacher"
    by (simp add: teacher_1_def)
  show ?thesis
    using pk_profiles_school_db p r
      teacher_roster_is_empty [OF pk_profiles_school_db p r, of 10]
    by (simp add: example_defs)
qed

section \<open>The class of a post and its author\<close>

lemma posts_insert_check_author:
  "pk_profiles db \<Longrightarrow> posts_insert_check db uid r \<Longrightarrow> author_of_class db uid r"
  by (auto simp: posts_insert_check_def author_of_class_def sql_true
      caller_teacher_class_ids_iff split: option.splits)

lemma insert_posts_keeps_author_in_class:
  assumes "pk_profiles db" and "posts_author_in_class db" and "insert_posts db uid r = Inr db'"
  shows "posts_author_in_class db'"
proof -
  from assms(3) have chk: "posts_insert_check db uid r"
    and db': "db' = db\<lparr>posts := posts db @ [r]\<rparr>"
    by (auto simp: insert_posts_def split: if_splits option.splits)
  from posts_insert_check_author [OF assms(1) chk]
  have "case profile_of db (posts_teacher_id r) of None \<Rightarrow> False
        | Some p \<Rightarrow> profiles_class_id p = Some (posts_class_id r)"
    by (auto simp: author_of_class_def split: option.splits)
  then show ?thesis
    using assms(2) unfolding db' posts_author_in_class_def profile_of_def
    by simp
qed

lemma delete_posts_keeps_author_in_class:
  assumes "posts_author_in_class db" and "delete_posts db uid wh = Inr db'"
  shows "posts_author_in_class db'"
proof -
  from assms(2) have db': "db' = db\<lparr>posts := filter (\<lambda>r. \<not> (posts_where wh r \<and>
      posts_read_policy db uid wh r \<and> posts_delete_policy uid r)) (posts db)\<rparr>"
    by (simp add: delete_posts_def)
  show ?thesis
    using assms(1) unfolding db' posts_author_in_class_def profile_of_def
    by (simp add: list_all_iff)
qed

lemma update_posts_where_keeps_author_in_class:
  assumes pk: "pk_profiles db" and inv: "posts_author_in_class db"
    and upd: "update_posts db uid (Some w) p = Inr db'"
  shows "posts_author_in_class db'"
proof -
  let ?target = "\<lambda>r. posts_where (Some w) r \<and> posts_read_policy db uid (Some w) r \<and>
                      posts_update_policy uid r"
  let ?ok = "\<lambda>r. case profile_of db (posts_teacher_id r) of None \<Rightarrow> False
                  | Some q \<Rightarrow> profiles_class_id q = Some (posts_class_id r)"
  from upd have chk: "list_all (\<lambda>r. posts_update_policy uid (set_posts p r) \<and>
                        posts_read_policy db uid (Some w) (set_posts p r))
                (filter ?target (posts db))"
    and db': "db' = db\<lparr>posts := map (\<lambda>r. if ?target r then set_posts p r else r) (posts db)\<rparr>"
    by (auto simp: update_posts_def Let_def split: if_splits option.splits)
  have new_ok: "?ok (set_posts p r)" if "r \<in> set (posts db)" "?target r" for r
  proof -
    from chk that have u: "posts_update_policy uid (set_posts p r)"
      and s: "posts_select_policy db uid (set_posts p r)"
      by (auto simp: list_all_iff posts_read_policy_def)
    from u have "uid = Some (posts_teacher_id (set_posts p r))"
      by (auto simp: posts_update_policy_def is_true_sql_eq)
    moreover from s pk obtain u' q where "uid = Some u'" "profile_of db u' = Some q"
      "profiles_class_id q = Some (posts_class_id (set_posts p r))"
      by (auto simp: posts_select_policy_def is_true_sql_in caller_class_ids_iff)
    ultimately show ?thesis by auto
  qed
  have old_ok: "?ok r" if "r \<in> set (posts db)" for r
    using inv that by (simp add: posts_author_in_class_def list_all_iff)
  have "list_all ?ok (map (\<lambda>r. if ?target r then set_posts p r else r) (posts db))"
    unfolding list_all_iff using new_ok old_ok by auto
  then show ?thesis
    unfolding db' posts_author_in_class_def profile_of_def by simp
qed

text \<open>
  C5. The author of every post belongs to the class of the post. \<open>INSERT\<close> and
  \<open>DELETE\<close> keep this, and so does an \<open>UPDATE\<close> with a filter, which is held to the
  \<open>SELECT\<close> policy; an \<open>UPDATE\<close> without a filter is held to the \<open>UPDATE\<close> policy only,
  which looks at \<open>teacher_id\<close> alone. The teacher of class 10 may so move the own post to
  class 20, where the \<open>INSERT\<close> check rejects the same row.
\<close>

theorem update_posts_breaks_author_in_class:
  "posts_author_in_class school_db
   \<and> update_posts school_db (Some 1) None
        \<lparr>patch_id = None, patch_teacher_id = None, patch_class_id = Some 20,
         patch_title = None, patch_content = None, patch_created_at = None\<rparr>
       = Inr (school_db\<lparr>posts := [post_100\<lparr>posts_class_id := 20\<rparr>]\<rparr>)
   \<and> \<not> posts_author_in_class (school_db\<lparr>posts := [post_100\<lparr>posts_class_id := 20\<rparr>]\<rparr>)
   \<and> insert_posts school_db (Some 1) (post_100\<lparr>posts_id := 101, posts_class_id := 20\<rparr>)
       = Inl Rls_violation"
  by (simp add: posts_author_in_class_def profile_of_def update_posts_def insert_posts_def
      posts_constraints_def posts_select_policy_def posts_update_policy_def
      posts_read_policy_def posts_where_def set_posts_def set_column_def
      posts_insert_check_def caller_class_ids_def caller_teacher_class_ids_def
      sql_eq_def sql_and_def sql_in_def is_true_def example_defs)

lemma update_posts_where_rejects_move:
  "update_posts school_db (Some 1) (Some (\<lambda>r. posts_id r = 100))
        \<lparr>patch_id = None, patch_teacher_id = None, patch_class_id = Some 20,
         patch_title = None, patch_content = None, patch_created_at = None\<rparr>
       = Inl Rls_violation"
  by (simp add: update_posts_def
      posts_constraints_def posts_select_policy_def posts_update_policy_def
      posts_read_policy_def posts_where_def set_posts_def set_column_def
      caller_class_ids_def sql_eq_def sql_and_def sql_in_def is_true_def example_defs)

end
